theory Spec2Isabelle
  imports Complex_Main "HOL-Library.Word"
begin

section \<open>Data model of the image processing service\<close>

text \<open>
  The service is one closure, \<^verbatim>\<open>processImage(cv, imgElement, canvasElement, saveFilename)\<close>,
  whose local functions share the closure variables \<^verbatim>\<open>contours\<close>, \<^verbatim>\<open>contourMap\<close>,
  \<^verbatim>\<open>contourNumMap\<close>, \<^verbatim>\<open>lastCnt\<close> and the Three.js \<^verbatim>\<open>scene\<close>.

  JavaScript numbers are modelled as exact rationals; the comparisons of the source are
  kept as they are written. An OpenCV contour (a \<^verbatim>\<open>CV_32SC2\<close> matrix with one point per
  row, read through \<^verbatim>\<open>data32S\<close>) is the list of its integer points, and \<^verbatim>\<open>cnt.rows\<close> is
  the length of that list.
\<close>

type_synonym contour = "(int \<times> int) list"

type_synonym vector2 = "rat \<times> rat"

text \<open>Exceptions that end a call: reading a property of \<^verbatim>\<open>undefined\<close>, and an OpenCV
  binding that rejects its argument.\<close>

datatype js_error = TypeError | BindingError

text \<open>\<^verbatim>\<open>MatVector.get(i)\<close> and a JavaScript array read: \<^verbatim>\<open>undefined\<close> (here \<open>None\<close>) outside
  the vector.\<close>

definition MatVector_get :: "'a list \<Rightarrow> nat \<Rightarrow> 'a option" where
  "MatVector_get v i = (if i < length v then Some (v ! i) else None)"

text \<open>
  The OpenCV module \<^verbatim>\<open>cv\<close> is a parameter of \<^verbatim>\<open>processImage\<close>, and it is a parameter
  here. \<open>contourArea\<close> is \<^verbatim>\<open>cv.contourArea(cnt, oriented)\<close>. \<open>drawAndDetect\<close> stands for
  the raster stage of \<^verbatim>\<open>getScaledOutlineShape\<close> (bounding rectangle, the scaled line
  strokes on a blank matrix, the two thresholds and \<^verbatim>\<open>cv.findContours\<close>): from the contour,
  the stroke width, the boundary offset width and the output size it yields the ring raster
  \<^verbatim>\<open>dst\<close> with its dimensions and the contours traced on it.
\<close>

record ring_raster =
  dst_cols :: nat
  dst_rows :: nat
  ring_contours :: "contour list"

record cv_engine =
  contourArea :: "contour \<Rightarrow> bool \<Rightarrow> rat"
  drawAndDetect :: "contour \<Rightarrow> rat \<Rightarrow> rat \<Rightarrow> rat \<Rightarrow> ring_raster"


section \<open>\<^verbatim>\<open>getThreeVector\<close>: the point-reduction filter\<close>

record tv_state =
  cPoints :: "vector2 list"
  lastX :: rat
  lastY :: rat

definition getThreeVector_step :: "rat \<Rightarrow> rat \<Rightarrow> tv_state \<Rightarrow> int \<times> int \<Rightarrow> tv_state" where
  "getThreeVector_step scale tolerace s p =
     (let currentX = of_int (fst p) * scale;
          currentY = of_int (snd p) * scale
      in if lastX s + tolerace < currentX \<or> lastX s - tolerace > currentX
            \<or> lastY s + tolerace < currentY \<or> lastY s - tolerace > currentY
         then \<lparr>cPoints = cPoints s @ [(currentX, currentY)], lastX = currentX, lastY = currentY\<rparr>
         else s)"

definition getThreeVector :: "contour \<Rightarrow> rat \<Rightarrow> rat \<Rightarrow> vector2 list" where
  "getThreeVector cnt scaleF tolerace =
     cPoints (foldl (getThreeVector_step scaleF tolerace)
                \<lparr>cPoints = [], lastX = - 1000, lastY = - 1000\<rparr> cnt)"

text \<open>
  The filter as the specification words it, for comparison with the loop above: a point is
  kept when it differs from the last kept point by more than the tolerance in at least one
  axis, and the kept points are the greedy subsequence under that test. \<open>last_kept\<close> is
  the last kept point of an output list, the initial value of the tracker while nothing is
  kept.
\<close>

definition scale_point :: "rat \<Rightarrow> int \<times> int \<Rightarrow> vector2" where
  "scale_point scale p = (of_int (fst p) * scale, of_int (snd p) * scale)"





section \<open>\<^verbatim>\<open>onImageLoad\<close>: the default boundary\<close>

text \<open>
  The first loop of \<^verbatim>\<open>onImageLoad\<close> over the traced contours. Its drawing calls paint the
  preview and the contour map and do not touch the variables below. \<open>cols\<close> and \<open>rows\<close>
  are the dimensions of the padded raster \<^verbatim>\<open>src\<close>.
\<close>

definition boundaryCountourAreaCutoff :: "nat \<Rightarrow> nat \<Rightarrow> rat" where
  "boundaryCountourAreaCutoff cols rows = of_nat (cols * rows) * (90 / 100)"

record onImageLoad_locals =
  largestContour :: nat
  maxArea :: rat
  clockwise :: bool
  contIndex :: nat

text \<open>The loop state is the locals together with the closure variable \<^verbatim>\<open>contourNumMap\<close>.\<close>

definition onImageLoad_step ::
  "cv_engine \<Rightarrow> rat \<Rightarrow> contour list \<Rightarrow> onImageLoad_locals \<times> nat list \<Rightarrow> nat
     \<Rightarrow> onImageLoad_locals \<times> nat list" where
  "onImageLoad_step cv cutoff cs st i =
     (let s = fst st; numMap = snd st;
          cnt = cs ! i;
          area0 = contourArea cv cnt True;
          cw = (if area0 < 0 then False else True);
          area = (if area0 < 0 then - area0 else area0);
          st1 = (if area > cutoff * (1 / 10) \<and> area < cutoff
                 then (s\<lparr>contIndex := contIndex s + 1\<rparr>, numMap @ [i])
                 else (s, numMap))
      in if area < cutoff \<and> area > maxArea (fst st1)
         then ((fst st1)\<lparr>largestContour := i, maxArea := area, clockwise := cw\<rparr>, snd st1)
         else st1)"

definition onImageLoad_loop ::
  "cv_engine \<Rightarrow> nat \<Rightarrow> nat \<Rightarrow> contour list \<Rightarrow> onImageLoad_locals \<times> nat list" where
  "onImageLoad_loop cv cols rows cs =
     foldl (onImageLoad_step cv (boundaryCountourAreaCutoff cols rows) cs)
       (\<lparr>largestContour = 0, maxArea = 0, clockwise = True, contIndex = 1\<rparr>, [])
       [0..<length cs]"

text \<open>\<^verbatim>\<open>let cnt = contours.get(largestContour); ... lastCnt = cnt\<close>: the default active
  boundary.\<close>

definition onImageLoad_lastCnt :: "cv_engine \<Rightarrow> nat \<Rightarrow> nat \<Rightarrow> contour list \<Rightarrow> contour option" where
  "onImageLoad_lastCnt cv cols rows cs =
     MatVector_get cs (largestContour (fst (onImageLoad_loop cv cols rows cs)))"

text \<open>The unsigned area of a contour, and the open interval of the candidate filter.\<close>

definition unsigned_area :: "cv_engine \<Rightarrow> contour \<Rightarrow> rat" where
  "unsigned_area cv cnt = \<bar>contourArea cv cnt True\<bar>"

definition is_candidate :: "cv_engine \<Rightarrow> nat \<Rightarrow> nat \<Rightarrow> contour \<Rightarrow> bool" where
  "is_candidate cv cols rows cnt =
     (unsigned_area cv cnt < 90 / 100 * of_nat (cols * rows) \<and>
      unsigned_area cv cnt > 1 / 10 * (90 / 100 * of_nat (cols * rows)))"


section \<open>\<^verbatim>\<open>getScaledOutlineShape\<close>: outer and inner outline of the ring\<close>

text \<open>A \<^verbatim>\<open>THREE.Shape\<close>: the points of the outline and the list of its hole paths.\<close>

record shape =
  outline :: "vector2 list"
  holes :: "vector2 list list"

record ring_locals =
  ring_largestContour :: nat
  ring_otherContour :: nat
  ring_maxArea :: rat

definition ring_boundaryCountourAreaCutoff :: "nat \<Rightarrow> nat \<Rightarrow> rat" where
  "ring_boundaryCountourAreaCutoff cols rows = of_nat (cols * rows) * (95 / 100)"

definition ring_step :: "cv_engine \<Rightarrow> rat \<Rightarrow> contour list \<Rightarrow> ring_locals \<Rightarrow> nat \<Rightarrow> ring_locals" where
  "ring_step cv cutoff cs s i =
     (let ncnt = cs ! i;
          area = contourArea cv ncnt False
      in if area > ring_maxArea s \<and> area < cutoff
         then \<lparr>ring_largestContour = i, ring_otherContour = ring_largestContour s, ring_maxArea = area\<rparr>
         else s)"

definition ring_loop :: "cv_engine \<Rightarrow> ring_raster \<Rightarrow> ring_locals" where
  "ring_loop cv dst =
     foldl (ring_step cv (ring_boundaryCountourAreaCutoff (dst_cols dst) (dst_rows dst))
              (ring_contours dst))
       \<lparr>ring_largestContour = 1, ring_otherContour = 0, ring_maxArea = 0\<rparr>
       [0..<length (ring_contours dst)]"

text \<open>\<^verbatim>\<open>getThreeVector\<close> reads \<^verbatim>\<open>cnt.rows\<close>, which throws when \<^verbatim>\<open>contours.get\<close> gave
  \<^verbatim>\<open>undefined\<close>. The outer polygon is built first.\<close>

definition getScaledOutlineShape ::
  "cv_engine \<Rightarrow> contour \<Rightarrow> rat \<Rightarrow> rat \<Rightarrow> rat \<Rightarrow> rat \<Rightarrow> js_error + shape" where
  "getScaledOutlineShape cv cnt width maxBoundaryOffetWidth maxDesiredOut tol =
     (let dst = drawAndDetect cv cnt width maxBoundaryOffetWidth maxDesiredOut;
          s = ring_loop cv dst
      in case MatVector_get (ring_contours dst) (ring_largestContour s) of
           None \<Rightarrow> Inl TypeError
         | Some oc \<Rightarrow>
             (case MatVector_get (ring_contours dst) (ring_otherContour s) of
                None \<Rightarrow> Inl TypeError
              | Some ic \<Rightarrow>
                  Inr \<lparr>outline = getThreeVector oc (1 / 10) tol,
                       holes = [getThreeVector ic (1 / 10) tol]\<rparr>))"

text \<open>The contours of a ring raster that can pass the test of the loop: positive area
  below the cutoff.\<close>

definition usable :: "cv_engine \<Rightarrow> ring_raster \<Rightarrow> contour \<Rightarrow> bool" where
  "usable cv dst c =
     (0 < contourArea cv c False \<and>
      contourArea cv c False < ring_boundaryCountourAreaCutoff (dst_cols dst) (dst_rows dst))"



section \<open>\<^verbatim>\<open>generateSTL\<close>: the solid\<close>

text \<open>The fields of the application state that \<^verbatim>\<open>generateSTL\<close> reads through
  \<^verbatim>\<open>cookieState.get()\<close>; \<open>cookieSize\<close> is the field \<^verbatim>\<open>size\<close>.\<close>

record cookie_state =
  depth :: rat
  thickness :: rat
  tolerance :: rat
  cutterBevel :: bool
  handleRound :: bool
  cookieSize :: rat

text \<open>The settings object handed to \<^verbatim>\<open>THREE.ExtrudeBufferGeometry\<close>; a key the object
  literal does not set is \<open>None\<close>. \<open>extrude_depth\<close> is its key \<^verbatim>\<open>depth\<close>.\<close>

record extrude_settings =
  steps :: nat
  extrude_depth :: rat
  bevelEnabled :: bool
  bevelThickness :: "rat option"
  bevelSize :: "rat option"
  bevelOffset :: "rat option"
  bevelSegments :: "nat option"

text \<open>One extruded mesh: the shape, its settings, and the translation along z applied to
  the geometry. A merged geometry is the list of its meshes in the order of the
  \<^verbatim>\<open>mergeMesh\<close> calls. The material, \<^verbatim>\<open>mergeVertices\<close> and the rendering are left to
  Three.js. After the call the scene holds the merged mesh and the one point light that is
  added to it.\<close>

record extruded =
  ex_shape :: shape
  ex_settings :: extrude_settings
  ex_z :: rat

datatype scene_object = Mesh "extruded list" | PointLight nat rat rat "rat \<times> rat \<times> rat"

definition generateSTL :: "cv_engine \<Rightarrow> cookie_state \<Rightarrow> contour \<Rightarrow> js_error + scene_object list" where
  "generateSTL cv cfg cnt =
     (let height = depth cfg;
          handleWidth = 42 / 10;
          handleThickness = 2;
          width = thickness cfg;
          tolerance = tolerance cfg;
          bevelCutter = cutterBevel cfg;
          handleRound = handleRound cfg;
          extrudeSettings = \<lparr>steps = 1, extrude_depth = 0, bevelEnabled = True,
             bevelThickness = Some (height / 2), bevelSize = Some (width / 2),
             bevelOffset = Some 0, bevelSegments = Some 1\<rparr>;
          extrudeSettings2 = \<lparr>steps = 1,
             extrude_depth = (if \<not> bevelCutter then height else height / 2),
             bevelEnabled = False,
             bevelThickness = None, bevelSize = None, bevelOffset = None, bevelSegments = None\<rparr>;
          handleExtrudeSettings = \<lparr>steps = 1, extrude_depth = handleThickness,
             bevelEnabled = handleRound,
             bevelThickness = Some (6 / 10), bevelSize = Some (6 / 10),
             bevelOffset = Some 0, bevelSegments = Some 5\<rparr>;
          cookieSize = cookieSize cfg
      in case getScaledOutlineShape cv cnt (width / 2) handleWidth cookieSize tolerance of
           Inl e \<Rightarrow> Inl e
         | Inr outShape \<Rightarrow>
             (case (if bevelCutter
                    then map_sum id Some
                           (getScaledOutlineShape cv cnt (width * 3 / 2) handleWidth cookieSize tolerance)
                    else Inr None) of
                Inl e \<Rightarrow> Inl e
              | Inr outShape2 \<Rightarrow>
                  (case getScaledOutlineShape cv cnt handleWidth handleWidth cookieSize tolerance of
                     Inl e \<Rightarrow> Inl e
                   | Inr handleoutShape \<Rightarrow>
                       (let cutter =
                              (case outShape2 of
                                 Some shape2 \<Rightarrow>
                                   [\<lparr>ex_shape = shape2, ex_settings = extrudeSettings2, ex_z = 0\<rparr>,
                                    \<lparr>ex_shape = outShape, ex_settings = extrudeSettings,
                                      ex_z = height / 2\<rparr>]
                               | None \<Rightarrow>
                                   [\<lparr>ex_shape = outShape, ex_settings = extrudeSettings2, ex_z = 0\<rparr>]);
                            hmesh = \<lparr>ex_shape = handleoutShape,
                                     ex_settings = handleExtrudeSettings, ex_z = 0\<rparr>;
                            geom = cutter @ [hmesh]
                        in Inr [Mesh geom, PointLight 0xffffff 2 200 (50, 50, 50)]))))"


section \<open>\<^verbatim>\<open>updateContourSelection\<close>: picking a contour by a click\<close>

text \<open>
  The contour map is a continuous \<^verbatim>\<open>CV_8UC3\<close> matrix: its bytes row by row, three per
  pixel. \<^verbatim>\<open>ucharPtr(row, col)\<close> is the view of the buffer that starts at that pixel, and
  \<^verbatim>\<open>[0]\<close> of an empty view is \<^verbatim>\<open>undefined\<close>.
\<close>

record mat8uc3 =
  mat_rows :: nat
  mat_cols :: nat
  mat_data :: "8 word list"

definition ucharPtr :: "mat8uc3 \<Rightarrow> nat \<Rightarrow> nat \<Rightarrow> 8 word list" where
  "ucharPtr m row col = drop (row * (mat_cols m * 3) + col * 3) (mat_data m)"

text \<open>What \<^verbatim>\<open>cv.imshow('canvasOutput', dst)\<close> last displayed: the contours stroked thin in
  blue over the padded grey image, and the contour stroked in red.\<close>

record canvas =
  blue_contours :: "nat list"
  red_contour :: nat

record image =
  img_width :: nat
  img_height :: nat

text \<open>The closure variables, the displayed raster, the children of the scene, and the
  number of \<^verbatim>\<open>animate()\<close> calls made so far (each starts a redraw loop).\<close>

record app_state =
  contours :: "contour list"
  contourMap :: "mat8uc3 option"
  contourNumMap :: "nat list"
  lastCnt :: "contour option"
  canvasOutput :: "canvas option"
  scene :: "scene_object list"
  animateCalls :: nat

text \<open>The loop of \<^verbatim>\<open>updateContourSelection\<close> over the contours: the indices it strokes
  in blue.\<close>

definition stroked_blue :: "cv_engine \<Rightarrow> rat \<Rightarrow> contour list \<Rightarrow> nat list" where
  "stroked_blue cv cutoff cs =
     filter (\<lambda>i. let cnt = cs ! i;
                     area0 = contourArea cv cnt True;
                     area = (if area0 < 0 then - area0 else area0)
                 in area > cutoff * (1 / 10) \<and> area < cutoff)
       [0..<length cs]"

text \<open>
  The result is the state the call leaves behind and the exception it ended with, if any.
  The drawing calls reject an index that is \<^verbatim>\<open>undefined\<close> or outside \<^verbatim>\<open>contours\<close> before
  anything is displayed; an exception of \<^verbatim>\<open>generateSTL\<close> comes after the canvas and
  \<^verbatim>\<open>lastCnt\<close> are written.
\<close>

definition updateContourSelection ::
  "cv_engine \<Rightarrow> cookie_state \<Rightarrow> image \<Rightarrow> nat \<Rightarrow> nat \<Rightarrow> app_state
     \<Rightarrow> app_state \<times> js_error option" where
  "updateContourSelection cv cfg imgElement x y st =
     (case contourMap st of
        None \<Rightarrow> (st, None)
      | Some cm \<Rightarrow>
          (case ucharPtr cm y x of
             [] \<Rightarrow> (st, Some BindingError)
           | co # _ \<Rightarrow>
               if co \<noteq> 0 then
                 (case MatVector_get (contourNumMap st) (unat co - 1) of
                    None \<Rightarrow> (st, Some BindingError)
                  | Some co' \<Rightarrow>
                      (let offset = 10;
                           dst_cols = img_width imgElement + 2 * offset;
                           dst_rows = img_height imgElement + 2 * offset;
                           cutoff = boundaryCountourAreaCutoff dst_cols dst_rows;
                           blue = stroked_blue cv cutoff (contours st)
                       in case MatVector_get (contours st) co' of
                            None \<Rightarrow> (st, Some BindingError)
                          | Some cnt \<Rightarrow>
                              (let st1 = st\<lparr>canvasOutput :=
                                              Some \<lparr>blue_contours = blue, red_contour = co'\<rparr>,
                                            lastCnt := Some cnt\<rparr>
                               in case generateSTL cv cfg cnt of
                                    Inl e \<Rightarrow> (st1, Some e)
                                  | Inr children \<Rightarrow>
                                      (st1\<lparr>scene := children,
                                           animateCalls := animateCalls st1 + 1\<rparr>, None))))
               else (st, None)))"


section \<open>\<^verbatim>\<open>saveTextAsFile\<close>: the name of the exported file\<close>

text \<open>A JavaScript string is a sequence of UTF-16 code units; the regular expression
  \<^verbatim>\<open>/[^a-zA-Z0-9_-]/g\<close> has no unicode flag and tests one code unit at a time.\<close>

type_synonym js_string = "16 word list"

definition utf16 :: "string \<Rightarrow> js_string" where
  "utf16 s = map (\<lambda>c. of_nat (of_char c)) s"

definition in_class :: "16 word \<Rightarrow> bool" where
  "in_class c =
     ((0x61 \<le> c \<and> c \<le> 0x7A) \<or> (0x41 \<le> c \<and> c \<le> 0x5A) \<or> (0x30 \<le> c \<and> c \<le> 0x39)
      \<or> c = 0x5F \<or> c = 0x2D)"

definition sanitizedFilename :: "js_string \<Rightarrow> js_string" where
  "sanitizedFilename saveFilename = map (\<lambda>c. if in_class c then c else 0x5F) saveFilename"

definition fileNameToSaveAs :: "js_string \<Rightarrow> js_string" where
  "fileNameToSaveAs saveFilename = sanitizedFilename saveFilename @ utf16 ''.stl''"

text \<open>The character classes as the specification names them.\<close>

definition ascii_letter :: "16 word \<Rightarrow> bool" where
  "ascii_letter c =
     (c \<in> set (utf16 ''abcdefghijklmnopqrstuvwxyz'') \<or> c \<in> set (utf16 ''ABCDEFGHIJKLMNOPQRSTUVWXYZ''))"

definition ascii_digit :: "16 word \<Rightarrow> bool" where
  "ascii_digit c = (c \<in> set (utf16 ''0123456789''))"

definition hyphen :: "16 word" where
  "hyphen = of_nat (of_char CHR ''-'')"

definition underscore :: "16 word" where
  "underscore = of_nat (of_char CHR ''_'')"


section \<open>A concrete engine for running the model\<close>

text \<open>
  The signed area of a polygon with integer vertices by the shoelace formula, and an
  engine whose raster stage returns a fixed list of traced contours on a square raster of
  the given side. With the output size 76 and the handle width 4.2 the ring raster of
  \<^verbatim>\<open>getScaledOutlineShape\<close> has side \<open>76 * 10 + 2 * 63 = 886\<close>.
\<close>

definition shoelace2 :: "contour \<Rightarrow> int" where
  "shoelace2 c =
     (case c of [] \<Rightarrow> 0
      | _ \<Rightarrow> sum_list (map2 (\<lambda>p q. fst p * snd q - fst q * snd p) (last c # butlast c) c))"

definition shoelace_area :: "contour \<Rightarrow> bool \<Rightarrow> rat" where
  "shoelace_area c oriented =
     (let a = of_int (shoelace2 c) / 2 in if oriented then a else \<bar>a\<bar>)"

definition square :: "int \<Rightarrow> int \<Rightarrow> contour" where
  "square lo hi = [(lo, lo), (lo, hi), (hi, hi), (hi, lo)]"

definition fixed_engine :: "nat \<Rightarrow> contour list \<Rightarrow> cv_engine" where
  "fixed_engine side cs =
     \<lparr>contourArea = shoelace_area,
      drawAndDetect = (\<lambda>cnt width maxBoundaryOffetWidth maxDesiredOut.
         \<lparr>dst_cols = side, dst_rows = side, ring_contours = cs\<rparr>)\<rparr>"


text \<open>The default settings of the application (depth 16, thickness 1, tolerance 0.15, no
  bevel, square handle, size 76), and the same with the bevel switched on.\<close>

definition default_config :: cookie_state where
  "default_config =
     \<lparr>depth = 16, thickness = 1, tolerance = 15 / 100, cutterBevel = False,
      handleRound = False, cookieSize = 76\<rparr>"

definition bevel_config :: cookie_state where
  "bevel_config = default_config\<lparr>cutterBevel := True\<rparr>"

text \<open>An engine that traces the inner edge, the outer edge and the frame of a ring, in
  that order, and a state after loading a 200 by 200 image: two traced contours (a subject
  and the frame of the padded raster), a contour map of one row with an unlabelled pixel
  and a pixel of label 1, and label 1 standing for contour 0.\<close>

definition ring_engine :: cv_engine where
  "ring_engine = fixed_engine 886 [square 68 818, square 58 828, square 0 885]"

definition loaded_state :: app_state where
  "loaded_state =
     \<lparr>contours = [square 60 160, square 0 219],
      contourMap = Some \<lparr>mat_rows = 1, mat_cols = 2, mat_data = [0, 0, 255, 1, 0, 255]\<rparr>,
      contourNumMap = [0],
      lastCnt = Some (square 60 160),
      canvasOutput = None,
      scene = [],
      animateCalls = 1\<rparr>"


section \<open>Invariant of the default-boundary loop\<close>

text \<open>After the first \<open>k\<close> contours: \<^verbatim>\<open>maxArea\<close> bounds every area below the cutoff seen so
  far, and once it is positive it is the area of \<^verbatim>\<open>largestContour\<close>, below the cutoff.\<close>

definition largest_inv ::
  "cv_engine \<Rightarrow> rat \<Rightarrow> contour list \<Rightarrow> nat \<Rightarrow> onImageLoad_locals \<Rightarrow> bool" where
  "largest_inv cv cutoff cs k s =
     (0 \<le> maxArea s \<and>
      (\<forall>j<k. unsigned_area cv (cs ! j) < cutoff \<longrightarrow> unsigned_area cv (cs ! j) \<le> maxArea s) \<and>
      (0 < maxArea s \<longrightarrow>
         largestContour s < k \<and> unsigned_area cv (cs ! largestContour s) = maxArea s \<and>
         maxArea s < cutoff))"


section \<open>Invariant of the ring selection loop\<close>

text \<open>After the first \<open>k\<close> contours of the ring raster: the same bound for \<^verbatim>\<open>maxArea\<close>, and
  both indices stay below \<open>max 2 k\<close>, since they start at 1 and 0.\<close>

definition ring_inv :: "cv_engine \<Rightarrow> rat \<Rightarrow> contour list \<Rightarrow> nat \<Rightarrow> ring_locals \<Rightarrow> bool" where
  "ring_inv cv cutoff cs k s =
     (0 \<le> ring_maxArea s \<and>
      (\<forall>j<k. contourArea cv (cs ! j) False < cutoff
               \<longrightarrow> contourArea cv (cs ! j) False \<le> ring_maxArea s) \<and>
      (0 < ring_maxArea s \<longrightarrow>
         ring_largestContour s < k \<and>
         contourArea cv (cs ! ring_largestContour s) False = ring_maxArea s \<and>
         ring_maxArea s < cutoff) \<and>
      ring_largestContour s < max 2 k \<and> ring_otherContour s < max 2 k)"


section \<open>Properties of the point-reduction filter\<close>





















section \<open>The default boundary of \<^verbatim>\<open>onImageLoad\<close>\<close>

lemma onImageLoad_step_largest:
  "largestContour (fst (onImageLoad_step cv cutoff cs st i)) =
     (if unsigned_area cv (cs ! i) < cutoff \<and> unsigned_area cv (cs ! i) > maxArea (fst st)
      then i else largestContour (fst st))"
  by (simp add: onImageLoad_step_def unsigned_area_def Let_def abs_if)

lemma onImageLoad_step_maxArea:
  "maxArea (fst (onImageLoad_step cv cutoff cs st i)) =
     (if unsigned_area cv (cs ! i) < cutoff \<and> unsigned_area cv (cs ! i) > maxArea (fst st)
      then unsigned_area cv (cs ! i) else maxArea (fst st))"
  by (simp add: onImageLoad_step_def unsigned_area_def Let_def abs_if)

lemma largest_inv_step:
  assumes "largest_inv cv cutoff cs k (fst st)"
  shows "largest_inv cv cutoff cs (Suc k) (fst (onImageLoad_step cv cutoff cs st k))"
proof -
  let ?a = "unsigned_area cv (cs ! k)"
  show ?thesis
  proof (cases "?a < cutoff \<and> ?a > maxArea (fst st)")
    case True
    then have l: "largestContour (fst (onImageLoad_step cv cutoff cs st k)) = k"
      and m: "maxArea (fst (onImageLoad_step cv cutoff cs st k)) = ?a"
      by (simp_all add: onImageLoad_step_largest onImageLoad_step_maxArea)
    from assms True show ?thesis
      unfolding largest_inv_def l m
      by (auto simp: less_Suc_eq)
  next
    case False
    then have l: "largestContour (fst (onImageLoad_step cv cutoff cs st k))
                    = largestContour (fst st)"
      and m: "maxArea (fst (onImageLoad_step cv cutoff cs st k)) = maxArea (fst st)"
      by (auto simp: onImageLoad_step_largest onImageLoad_step_maxArea)
    from assms False show ?thesis
      unfolding largest_inv_def l m
      by (auto simp: less_Suc_eq)
  qed
qed

lemma largest_inv_loop:
  "k \<le> length cs \<Longrightarrow>
   largest_inv cv cutoff cs k
     (fst (foldl (onImageLoad_step cv cutoff cs)
            (\<lparr>largestContour = 0, maxArea = 0, clockwise = True, contIndex = 1\<rparr>, []) [0..<k]))"
proof (induction k)
  case 0
  show ?case by (simp add: largest_inv_def)
next
  case (Suc k)
  then have "largest_inv cv cutoff cs k
     (fst (foldl (onImageLoad_step cv cutoff cs)
            (\<lparr>largestContour = 0, maxArea = 0, clockwise = True, contIndex = 1\<rparr>, []) [0..<k]))"
    by simp
  from largest_inv_step [OF this] show ?case by simp
qed

lemma cutoff_eq: "boundaryCountourAreaCutoff cols rows = 90 / 100 * of_nat (cols * rows)"
  by (simp add: boundaryCountourAreaCutoff_def)

text \<open>
  C1. For every padded raster of \<open>cols\<close> by \<open>rows\<close> pixels whose traced contours hold at
  least one candidate (unsigned area strictly between \<open>0.1 * 0.90 * (cols * rows)\<close> and
  \<open>0.90 * (cols * rows)\<close>), the contour that \<^verbatim>\<open>onImageLoad\<close> makes the default active
  boundary lies in that open interval and has the largest unsigned area among the
  candidates.
\<close>

theorem onImageLoad_default_is_largest_candidate:
  assumes "\<exists>c \<in> set cs. is_candidate cv cols rows c"
  shows "\<exists>L < length cs.
           largestContour (fst (onImageLoad_loop cv cols rows cs)) = L \<and>
           onImageLoad_lastCnt cv cols rows cs = Some (cs ! L) \<and>
           is_candidate cv cols rows (cs ! L) \<and>
           (\<forall>c \<in> set cs. is_candidate cv cols rows c
               \<longrightarrow> unsigned_area cv c \<le> unsigned_area cv (cs ! L))"
proof -
  let ?cut = "boundaryCountourAreaCutoff cols rows"
  let ?s = "fst (onImageLoad_loop cv cols rows cs)"
  have inv: "largest_inv cv ?cut cs (length cs) ?s"
    unfolding onImageLoad_loop_def by (rule largest_inv_loop) simp
  have cut0: "0 \<le> ?cut" by (simp add: boundaryCountourAreaCutoff_def)
  from assms obtain j where j: "j < length cs" and cj: "is_candidate cv cols rows (cs ! j)"
    by (auto simp: in_set_conv_nth)
  from cj have aj: "unsigned_area cv (cs ! j) < ?cut" "1 / 10 * ?cut < unsigned_area cv (cs ! j)"
    by (simp_all add: is_candidate_def cutoff_eq)
  from inv j aj(1) have le: "unsigned_area cv (cs ! j) \<le> maxArea ?s"
    by (simp add: largest_inv_def)
  from aj(2) cut0 have "0 < unsigned_area cv (cs ! j)" by simp
  with le have pos: "0 < maxArea ?s" by simp
  with inv have L: "largestContour ?s < length cs"
    and aL: "unsigned_area cv (cs ! largestContour ?s) = maxArea ?s"
    and mL: "maxArea ?s < ?cut"
    by (simp_all add: largest_inv_def)
  have candL: "is_candidate cv cols rows (cs ! largestContour ?s)"
    using aL mL le aj(2) by (simp add: is_candidate_def cutoff_eq)
  have maxL: "\<forall>c \<in> set cs. is_candidate cv cols rows c
               \<longrightarrow> unsigned_area cv c \<le> unsigned_area cv (cs ! largestContour ?s)"
  proof (intro ballI impI)
    fix c assume "c \<in> set cs" and c: "is_candidate cv cols rows c"
    then obtain i where i: "i < length cs" and ci: "c = cs ! i" by (auto simp: in_set_conv_nth)
    from c have "unsigned_area cv (cs ! i) < ?cut" by (simp add: is_candidate_def cutoff_eq ci)
    with inv i have "unsigned_area cv (cs ! i) \<le> maxArea ?s" by (simp add: largest_inv_def)
    with aL ci show "unsigned_area cv c \<le> unsigned_area cv (cs ! largestContour ?s)" by simp
  qed
  have "onImageLoad_lastCnt cv cols rows cs = Some (cs ! largestContour ?s)"
    using L by (simp add: onImageLoad_lastCnt_def MatVector_get_def)
  with L candL maxL show ?thesis by blast
qed

theorem onImageLoad_default_is_largest_candidate_witness:
  "(\<exists>c \<in> set [square 5 8, square 60 160, square 0 219]. is_candidate ring_engine 220 220 c) \<and>
   (\<exists>L < length [square 5 8, square 60 160, square 0 219].
      largestContour (fst (onImageLoad_loop ring_engine 220 220
          [square 5 8, square 60 160, square 0 219])) = L \<and>
      onImageLoad_lastCnt ring_engine 220 220 [square 5 8, square 60 160, square 0 219]
        = Some ([square 5 8, square 60 160, square 0 219] ! L) \<and>
      is_candidate ring_engine 220 220 ([square 5 8, square 60 160, square 0 219] ! L) \<and>
      (\<forall>c \<in> set [square 5 8, square 60 160, square 0 219]. is_candidate ring_engine 220 220 c
          \<longrightarrow> unsigned_area ring_engine c
                \<le> unsigned_area ring_engine ([square 5 8, square 60 160, square 0 219] ! L)))"
proof -
  have h: "\<exists>c \<in> set [square 5 8, square 60 160, square 0 219]. is_candidate ring_engine 220 220 c"
    by (simp add: is_candidate_def unsigned_area_def ring_engine_def fixed_engine_def
          shoelace_area_def shoelace2_def square_def)
  from h onImageLoad_default_is_largest_candidate [OF h] show ?thesis by (rule conjI)
qed


section \<open>The outlines of \<^verbatim>\<open>getScaledOutlineShape\<close>\<close>

text \<open>The loop keeps its invariant; the generator returns whenever at least two contours
  were traced; and the outline it returns is a usable contour of largest area whenever a
  usable contour was traced.\<close>

lemma ring_inv_step:
  assumes "ring_inv cv cutoff cs k s"
  shows "ring_inv cv cutoff cs (Suc k) (ring_step cv cutoff cs s k)"
proof (cases "contourArea cv (cs ! k) False > ring_maxArea s \<and> contourArea cv (cs ! k) False < cutoff")
  case True
  then have "ring_step cv cutoff cs s k =
      \<lparr>ring_largestContour = k, ring_otherContour = ring_largestContour s,
       ring_maxArea = contourArea cv (cs ! k) False\<rparr>"
    by (simp add: ring_step_def Let_def)
  with assms True show ?thesis
    by (auto simp: ring_inv_def less_Suc_eq)
next
  case False
  then have "ring_step cv cutoff cs s k = s"
    by (auto simp: ring_step_def Let_def)
  with assms False show ?thesis
    by (auto simp: ring_inv_def less_Suc_eq)
qed

lemma ring_inv_loop:
  "ring_inv cv cutoff cs k
     (foldl (ring_step cv cutoff cs)
        \<lparr>ring_largestContour = 1, ring_otherContour = 0, ring_maxArea = 0\<rparr> [0..<k])"
proof (induction k)
  case 0
  show ?case by (simp add: ring_inv_def)
next
  case (Suc k)
  from ring_inv_step [OF Suc] show ?case by simp
qed

lemma getScaledOutlineShape_returns:
  assumes "2 \<le> length (ring_contours (drawAndDetect cv cnt width maxBoundaryOffetWidth maxDesiredOut))"
  shows "\<exists>sh. getScaledOutlineShape cv cnt width maxBoundaryOffetWidth maxDesiredOut tol = Inr sh"
proof -
  let ?dst = "drawAndDetect cv cnt width maxBoundaryOffetWidth maxDesiredOut"
  have "ring_inv cv (ring_boundaryCountourAreaCutoff (dst_cols ?dst) (dst_rows ?dst))
          (ring_contours ?dst) (length (ring_contours ?dst)) (ring_loop cv ?dst)"
    unfolding ring_loop_def by (rule ring_inv_loop)
  with assms have "ring_largestContour (ring_loop cv ?dst) < length (ring_contours ?dst)"
    and "ring_otherContour (ring_loop cv ?dst) < length (ring_contours ?dst)"
    by (simp_all add: ring_inv_def max_def)
  then show ?thesis
    by (simp add: getScaledOutlineShape_def Let_def MatVector_get_def)
qed

lemma getScaledOutlineShape_outline_is_largest:
  assumes "\<exists>c \<in> set (ring_contours dst). usable cv dst c"
  shows "ring_largestContour (ring_loop cv dst) < length (ring_contours dst) \<and>
         usable cv dst (ring_contours dst ! ring_largestContour (ring_loop cv dst)) \<and>
         (\<forall>c \<in> set (ring_contours dst). usable cv dst c \<longrightarrow>
             contourArea cv c False
               \<le> contourArea cv (ring_contours dst ! ring_largestContour (ring_loop cv dst)) False)"
proof -
  let ?cut = "ring_boundaryCountourAreaCutoff (dst_cols dst) (dst_rows dst)"
  let ?cs = "ring_contours dst"
  let ?s = "ring_loop cv dst"
  have inv: "ring_inv cv ?cut ?cs (length ?cs) ?s"
    unfolding ring_loop_def by (rule ring_inv_loop)
  from assms obtain j where j: "j < length ?cs" and uj: "usable cv dst (?cs ! j)"
    by (auto simp: in_set_conv_nth)
  from inv j uj have "contourArea cv (?cs ! j) False \<le> ring_maxArea ?s"
    by (simp add: ring_inv_def usable_def)
  with uj have pos: "0 < ring_maxArea ?s" by (simp add: usable_def)
  with inv have L: "ring_largestContour ?s < length ?cs"
    and aL: "contourArea cv (?cs ! ring_largestContour ?s) False = ring_maxArea ?s"
    and mL: "ring_maxArea ?s < ?cut"
    by (simp_all add: ring_inv_def)
  have uL: "usable cv dst (?cs ! ring_largestContour ?s)"
    using aL mL pos by (simp add: usable_def)
  have "\<forall>c \<in> set ?cs. usable cv dst c \<longrightarrow>
          contourArea cv c False \<le> contourArea cv (?cs ! ring_largestContour ?s) False"
  proof (intro ballI impI)
    fix c assume "c \<in> set ?cs" and c: "usable cv dst c"
    then obtain i where i: "i < length ?cs" and ci: "c = ?cs ! i" by (auto simp: in_set_conv_nth)
    with inv c have "contourArea cv (?cs ! i) False \<le> ring_maxArea ?s"
      by (simp add: ring_inv_def usable_def)
    with aL ci show "contourArea cv c False \<le> contourArea cv (?cs ! ring_largestContour ?s) False"
      by simp
  qed
  with L uL show ?thesis by blast
qed

lemmas ring_eval =
  getScaledOutlineShape_def fixed_engine_def ring_loop_def ring_step_def Let_def MatVector_get_def
  ring_boundaryCountourAreaCutoff_def shoelace_area_def shoelace2_def square_def
  getThreeVector_def getThreeVector_step_def scale_point_def upt_rec






section \<open>The extrusions of \<^verbatim>\<open>generateSTL\<close>\<close>

lemma generateSTL_plain:
  assumes "\<not> cutterBevel cfg"
    and "getScaledOutlineShape cv cnt (thickness cfg / 2) (42 / 10) (cookieSize cfg) (tolerance cfg)
           = Inr wall"
    and "getScaledOutlineShape cv cnt (42 / 10) (42 / 10) (cookieSize cfg) (tolerance cfg)
           = Inr handle"
  shows "generateSTL cv cfg cnt =
     Inr [Mesh [\<lparr>ex_shape = wall,
                 ex_settings = \<lparr>steps = 1, extrude_depth = depth cfg, bevelEnabled = False,
                    bevelThickness = None, bevelSize = None, bevelOffset = None,
                    bevelSegments = None\<rparr>,
                 ex_z = 0\<rparr>,
                \<lparr>ex_shape = handle,
                 ex_settings = \<lparr>steps = 1, extrude_depth = 2, bevelEnabled = handleRound cfg,
                    bevelThickness = Some (6 / 10), bevelSize = Some (6 / 10),
                    bevelOffset = Some 0, bevelSegments = Some 5\<rparr>,
                 ex_z = 0\<rparr>],
          PointLight 0xffffff 2 200 (50, 50, 50)]"
  using assms by (simp add: generateSTL_def Let_def)

lemma generateSTL_bevel:
  assumes "cutterBevel cfg"
    and "getScaledOutlineShape cv cnt (thickness cfg / 2) (42 / 10) (cookieSize cfg) (tolerance cfg)
           = Inr wall"
    and "getScaledOutlineShape cv cnt (thickness cfg * 3 / 2) (42 / 10) (cookieSize cfg)
           (tolerance cfg) = Inr relief"
    and "getScaledOutlineShape cv cnt (42 / 10) (42 / 10) (cookieSize cfg) (tolerance cfg)
           = Inr handle"
  shows "generateSTL cv cfg cnt =
     Inr [Mesh [\<lparr>ex_shape = relief,
                 ex_settings = \<lparr>steps = 1, extrude_depth = depth cfg / 2, bevelEnabled = False,
                    bevelThickness = None, bevelSize = None, bevelOffset = None,
                    bevelSegments = None\<rparr>,
                 ex_z = 0\<rparr>,
                \<lparr>ex_shape = wall,
                 ex_settings = \<lparr>steps = 1, extrude_depth = 0, bevelEnabled = True,
                    bevelThickness = Some (depth cfg / 2), bevelSize = Some (thickness cfg / 2),
                    bevelOffset = Some 0, bevelSegments = Some 1\<rparr>,
                 ex_z = depth cfg / 2\<rparr>,
                \<lparr>ex_shape = handle,
                 ex_settings = \<lparr>steps = 1, extrude_depth = 2, bevelEnabled = handleRound cfg,
                    bevelThickness = Some (6 / 10), bevelSize = Some (6 / 10),
                    bevelOffset = Some 0, bevelSegments = Some 5\<rparr>,
                 ex_z = 0\<rparr>],
          PointLight 0xffffff 2 200 (50, 50, 50)]"
  using assms by (simp add: generateSTL_def Let_def)

text \<open>
  C6. For every boundary and configuration for which the outlines are produced: with the
  bevel disabled, \<^verbatim>\<open>generateSTL\<close> merges exactly one wall extrusion, of the outline at width
  \<open>thickness / 2\<close>, to the full \<open>depth\<close> and without bevel, followed by the handle; with
  the bevel enabled it merges a straight base extrusion of height \<open>depth / 2\<close> built from
  the relief outline at width \<open>thickness * 3 / 2\<close>, and a beveled cap with bevel thickness
  \<open>depth / 2\<close> and bevel size \<open>thickness / 2\<close> built from the outline at width
  \<open>thickness / 2\<close>, followed by the handle.
\<close>

theorem generateSTL_wall_extrusions:
  assumes "getScaledOutlineShape cv cnt (thickness cfg / 2) (42 / 10) (cookieSize cfg) (tolerance cfg)
           = Inr wall"
    and "getScaledOutlineShape cv cnt (42 / 10) (42 / 10) (cookieSize cfg) (tolerance cfg)
           = Inr handle"
  shows "(\<not> cutterBevel cfg \<longrightarrow>
          generateSTL cv cfg cnt =
            Inr [Mesh [\<lparr>ex_shape = wall,
                        ex_settings = \<lparr>steps = 1, extrude_depth = depth cfg, bevelEnabled = False,
                           bevelThickness = None, bevelSize = None, bevelOffset = None,
                           bevelSegments = None\<rparr>,
                        ex_z = 0\<rparr>,
                       \<lparr>ex_shape = handle,
                        ex_settings = \<lparr>steps = 1, extrude_depth = 2,
                           bevelEnabled = handleRound cfg,
                           bevelThickness = Some (6 / 10), bevelSize = Some (6 / 10),
                           bevelOffset = Some 0, bevelSegments = Some 5\<rparr>,
                        ex_z = 0\<rparr>],
                 PointLight 0xffffff 2 200 (50, 50, 50)])
       \<and> (cutterBevel cfg \<longrightarrow>
          getScaledOutlineShape cv cnt (thickness cfg * 3 / 2) (42 / 10) (cookieSize cfg)
            (tolerance cfg) = Inr relief \<longrightarrow>
          generateSTL cv cfg cnt =
            Inr [Mesh [\<lparr>ex_shape = relief,
                        ex_settings = \<lparr>steps = 1, extrude_depth = depth cfg / 2,
                           bevelEnabled = False,
                           bevelThickness = None, bevelSize = None, bevelOffset = None,
                           bevelSegments = None\<rparr>,
                        ex_z = 0\<rparr>,
                       \<lparr>ex_shape = wall,
                        ex_settings = \<lparr>steps = 1, extrude_depth = 0, bevelEnabled = True,
                           bevelThickness = Some (depth cfg / 2),
                           bevelSize = Some (thickness cfg / 2),
                           bevelOffset = Some 0, bevelSegments = Some 1\<rparr>,
                        ex_z = depth cfg / 2\<rparr>,
                       \<lparr>ex_shape = handle,
                        ex_settings = \<lparr>steps = 1, extrude_depth = 2,
                           bevelEnabled = handleRound cfg,
                           bevelThickness = Some (6 / 10), bevelSize = Some (6 / 10),
                           bevelOffset = Some 0, bevelSegments = Some 5\<rparr>,
                        ex_z = 0\<rparr>],
                 PointLight 0xffffff 2 200 (50, 50, 50)])"
  using generateSTL_plain [OF _ assms] generateSTL_bevel [OF _ assms(1) _ assms(2)]
  by blast

theorem generateSTL_wall_extrusions_witness:
  "generateSTL ring_engine default_config (square 60 160) =
     Inr [Mesh [\<lparr>ex_shape = \<lparr>outline = map (scale_point (1 / 10)) (square 58 828),
                             holes = [map (scale_point (1 / 10)) (square 68 818)]\<rparr>,
                 ex_settings = \<lparr>steps = 1, extrude_depth = 16, bevelEnabled = False,
                    bevelThickness = None, bevelSize = None, bevelOffset = None,
                    bevelSegments = None\<rparr>,
                 ex_z = 0\<rparr>,
                \<lparr>ex_shape = \<lparr>outline = map (scale_point (1 / 10)) (square 58 828),
                             holes = [map (scale_point (1 / 10)) (square 68 818)]\<rparr>,
                 ex_settings = \<lparr>steps = 1, extrude_depth = 2, bevelEnabled = False,
                    bevelThickness = Some (6 / 10), bevelSize = Some (6 / 10),
                    bevelOffset = Some 0, bevelSegments = Some 5\<rparr>,
                 ex_z = 0\<rparr>],
          PointLight 0xffffff 2 200 (50, 50, 50)]
   \<and> generateSTL ring_engine bevel_config (square 60 160) =
     Inr [Mesh [\<lparr>ex_shape = \<lparr>outline = map (scale_point (1 / 10)) (square 58 828),
                             holes = [map (scale_point (1 / 10)) (square 68 818)]\<rparr>,
                 ex_settings = \<lparr>steps = 1, extrude_depth = 8, bevelEnabled = False,
                    bevelThickness = None, bevelSize = None, bevelOffset = None,
                    bevelSegments = None\<rparr>,
                 ex_z = 0\<rparr>,
                \<lparr>ex_shape = \<lparr>outline = map (scale_point (1 / 10)) (square 58 828),
                             holes = [map (scale_point (1 / 10)) (square 68 818)]\<rparr>,
                 ex_settings = \<lparr>steps = 1, extrude_depth = 0, bevelEnabled = True,
                    bevelThickness = Some 8, bevelSize = Some (1 / 2),
                    bevelOffset = Some 0, bevelSegments = Some 1\<rparr>,
                 ex_z = 8\<rparr>,
                \<lparr>ex_shape = \<lparr>outline = map (scale_point (1 / 10)) (square 58 828),
                             holes = [map (scale_point (1 / 10)) (square 68 818)]\<rparr>,
                 ex_settings = \<lparr>steps = 1, extrude_depth = 2, bevelEnabled = False,
                    bevelThickness = Some (6 / 10), bevelSize = Some (6 / 10),
                    bevelOffset = Some 0, bevelSegments = Some 5\<rparr>,
                 ex_z = 0\<rparr>],
          PointLight 0xffffff 2 200 (50, 50, 50)]"
proof -
  let ?ring = "\<lparr>outline = map (scale_point (1 / 10)) (square 58 828),
                holes = [map (scale_point (1 / 10)) (square 68 818)]\<rparr>"
  have plain: "\<not> cutterBevel default_config" and bevel: "cutterBevel bevel_config"
    by (simp_all add: default_config_def bevel_config_def)
  have w1: "getScaledOutlineShape ring_engine (square 60 160) (thickness default_config / 2)
              (42 / 10) (cookieSize default_config) (tolerance default_config) = Inr ?ring"
    and h1: "getScaledOutlineShape ring_engine (square 60 160) (42 / 10)
              (42 / 10) (cookieSize default_config) (tolerance default_config) = Inr ?ring"
    by (simp_all add: default_config_def ring_engine_def ring_eval)
  have w2: "getScaledOutlineShape ring_engine (square 60 160) (thickness bevel_config / 2)
              (42 / 10) (cookieSize bevel_config) (tolerance bevel_config) = Inr ?ring"
    and r2: "getScaledOutlineShape ring_engine (square 60 160) (thickness bevel_config * 3 / 2)
              (42 / 10) (cookieSize bevel_config) (tolerance bevel_config) = Inr ?ring"
    and h2: "getScaledOutlineShape ring_engine (square 60 160) (42 / 10)
              (42 / 10) (cookieSize bevel_config) (tolerance bevel_config) = Inr ?ring"
    by (simp_all add: default_config_def bevel_config_def ring_engine_def ring_eval)
  from generateSTL_wall_extrusions [OF w1 h1] plain
  have a: "generateSTL ring_engine default_config (square 60 160) =
     Inr [Mesh [\<lparr>ex_shape = ?ring,
                 ex_settings = \<lparr>steps = 1, extrude_depth = depth default_config,
                    bevelEnabled = False,
                    bevelThickness = None, bevelSize = None, bevelOffset = None,
                    bevelSegments = None\<rparr>,
                 ex_z = 0\<rparr>,
                \<lparr>ex_shape = ?ring,
                 ex_settings = \<lparr>steps = 1, extrude_depth = 2,
                    bevelEnabled = handleRound default_config,
                    bevelThickness = Some (6 / 10), bevelSize = Some (6 / 10),
                    bevelOffset = Some 0, bevelSegments = Some 5\<rparr>,
                 ex_z = 0\<rparr>],
          PointLight 0xffffff 2 200 (50, 50, 50)]"
    by blast
  from generateSTL_wall_extrusions [OF w2 h2, of ?ring] bevel r2
  have b: "generateSTL ring_engine bevel_config (square 60 160) =
     Inr [Mesh [\<lparr>ex_shape = ?ring,
                 ex_settings = \<lparr>steps = 1, extrude_depth = depth bevel_config / 2,
                    bevelEnabled = False,
                    bevelThickness = None, bevelSize = None, bevelOffset = None,
                    bevelSegments = None\<rparr>,
                 ex_z = 0\<rparr>,
                \<lparr>ex_shape = ?ring,
                 ex_settings = \<lparr>steps = 1, extrude_depth = 0, bevelEnabled = True,
                    bevelThickness = Some (depth bevel_config / 2),
                    bevelSize = Some (thickness bevel_config / 2),
                    bevelOffset = Some 0, bevelSegments = Some 1\<rparr>,
                 ex_z = depth bevel_config / 2\<rparr>,
                \<lparr>ex_shape = ?ring,
                 ex_settings = \<lparr>steps = 1, extrude_depth = 2,
                    bevelEnabled = handleRound bevel_config,
                    bevelThickness = Some (6 / 10), bevelSize = Some (6 / 10),
                    bevelOffset = Some 0, bevelSegments = Some 5\<rparr>,
                 ex_z = 0\<rparr>],
          PointLight 0xffffff 2 200 (50, 50, 50)]"
    by blast
  show ?thesis
    unfolding a b by (simp add: default_config_def bevel_config_def)
qed


section \<open>Selecting a contour by a click\<close>

lemma updateContourSelection_cases:
  obtains (same) "fst (updateContourSelection cv cfg img x y st) = st"
  | (selected) cm co rest co' cnt where "contourMap st = Some cm" "ucharPtr cm y x = co # rest"
      "co \<noteq> 0" "MatVector_get (contourNumMap st) (unat co - 1) = Some co'"
      "MatVector_get (contours st) co' = Some cnt"
proof (cases "contourMap st")
  case None
  then have "fst (updateContourSelection cv cfg img x y st) = st"
    by (simp add: updateContourSelection_def)
  then show ?thesis by (rule same)
next
  case (Some cm)
  note cm = this
  show ?thesis
  proof (cases "ucharPtr cm y x")
    case Nil
    with cm have "fst (updateContourSelection cv cfg img x y st) = st"
      by (simp add: updateContourSelection_def)
    then show ?thesis by (rule same)
  next
    case (Cons co rest)
    note px = this
    show ?thesis
    proof (cases "co = 0")
      case True
      with cm px have "fst (updateContourSelection cv cfg img x y st) = st"
        by (simp add: updateContourSelection_def)
      then show ?thesis by (rule same)
    next
      case False
      note nz = this
      show ?thesis
      proof (cases "MatVector_get (contourNumMap st) (unat co - 1)")
        case None
        with cm px nz have "fst (updateContourSelection cv cfg img x y st) = st"
          by (simp add: updateContourSelection_def)
        then show ?thesis by (rule same)
      next
        case (Some co')
        note idx = this
        show ?thesis
        proof (cases "MatVector_get (contours st) co'")
          case None
          with cm px nz idx have "fst (updateContourSelection cv cfg img x y st) = st"
            by (simp add: updateContourSelection_def Let_def)
          then show ?thesis by (rule same)
        next
          case (Some cnt)
          with cm px nz idx show ?thesis by (rule selected)
        qed
      qed
    qed
  qed
qed

lemma updateContourSelection_selected:
  assumes "contourMap st = Some cm" and "ucharPtr cm y x = co # rest" and "co \<noteq> 0"
    and "MatVector_get (contourNumMap st) (unat co - 1) = Some co'"
    and "MatVector_get (contours st) co' = Some cnt"
  shows "updateContourSelection cv cfg img x y st =
     (case generateSTL cv cfg cnt of
        Inl e \<Rightarrow>
          (st\<lparr>canvasOutput := Some \<lparr>blue_contours =
                  stroked_blue cv
                    (boundaryCountourAreaCutoff (img_width img + 20) (img_height img + 20))
                    (contours st), red_contour = co'\<rparr>,
              lastCnt := Some cnt\<rparr>, Some e)
      | Inr children \<Rightarrow>
          (st\<lparr>canvasOutput := Some \<lparr>blue_contours =
                  stroked_blue cv
                    (boundaryCountourAreaCutoff (img_width img + 20) (img_height img + 20))
                    (contours st), red_contour = co'\<rparr>,
              lastCnt := Some cnt, scene := children, animateCalls := animateCalls st + 1\<rparr>,
           None))"
  using assms by (simp add: updateContourSelection_def Let_def split: sum.splits)

text \<open>
  C8. For every click coordinate at which the contour map holds label 0,
  \<^verbatim>\<open>updateContourSelection\<close> returns without an exception and leaves the whole state as it
  was: the active boundary \<^verbatim>\<open>lastCnt\<close>, the displayed raster and the scene.
\<close>

theorem updateContourSelection_label_zero:
  assumes "contourMap st = Some cm" and "ucharPtr cm y x = 0 # rest"
  shows "updateContourSelection cv cfg img x y st = (st, None)"
  using assms by (simp add: updateContourSelection_def)

theorem updateContourSelection_label_zero_witness:
  "contourMap loaded_state
     = Some \<lparr>mat_rows = 1, mat_cols = 2, mat_data = [0, 0, 255, 1, 0, 255]\<rparr>
   \<and> ucharPtr \<lparr>mat_rows = 1, mat_cols = 2, mat_data = [0, 0, 255, 1, 0, 255]\<rparr> 0 0
       = 0 # [0, 255, 1, 0, 255]
   \<and> updateContourSelection ring_engine default_config \<lparr>img_width = 200, img_height = 200\<rparr>
       0 0 loaded_state = (loaded_state, None)"
proof -
  have m: "contourMap loaded_state
     = Some \<lparr>mat_rows = 1, mat_cols = 2, mat_data = [0, 0, 255, 1, 0, 255]\<rparr>"
    by (simp add: loaded_state_def)
  have p: "ucharPtr \<lparr>mat_rows = 1, mat_cols = 2, mat_data = [0, 0, 255, 1, 0, 255]\<rparr> 0 0
             = 0 # [0, 255, 1, 0, 255]"
    by (simp add: ucharPtr_def)
  from updateContourSelection_label_zero [OF m p] m p show ?thesis by blast
qed

text \<open>
  C9. For every click coordinate at which the contour map holds a nonzero label, and a
  fixed configuration, selecting twice in succession leaves the same active boundary, the
  same scene and the same displayed raster as selecting once, and the second call ends as
  the first did.
\<close>

theorem updateContourSelection_idempotent:
  assumes "contourMap st = Some cm" and "ucharPtr cm y x = co # rest" and "co \<noteq> 0"
  shows "lastCnt (fst (updateContourSelection cv cfg img x y
                         (fst (updateContourSelection cv cfg img x y st))))
           = lastCnt (fst (updateContourSelection cv cfg img x y st))
       \<and> scene (fst (updateContourSelection cv cfg img x y
                         (fst (updateContourSelection cv cfg img x y st))))
           = scene (fst (updateContourSelection cv cfg img x y st))
       \<and> canvasOutput (fst (updateContourSelection cv cfg img x y
                         (fst (updateContourSelection cv cfg img x y st))))
           = canvasOutput (fst (updateContourSelection cv cfg img x y st))
       \<and> snd (updateContourSelection cv cfg img x y
                         (fst (updateContourSelection cv cfg img x y st)))
           = snd (updateContourSelection cv cfg img x y st)"
proof (cases rule: updateContourSelection_cases [of cv cfg img x y st])
  case same
  then show ?thesis by simp
next
  case (selected cm co rest co' cnt)
  let ?st1 = "fst (updateContourSelection cv cfg img x y st)"
  note first = updateContourSelection_selected [OF selected, of cv cfg img]
  have frame: "contourMap ?st1 = Some cm" "contourNumMap ?st1 = contourNumMap st"
    "contours ?st1 = contours st"
    using selected(1) by (simp_all add: first split: sum.splits)
  have second: "MatVector_get (contourNumMap ?st1) (unat co - 1) = Some co'"
    "MatVector_get (contours ?st1) co' = Some cnt"
    using selected(4,5) by (simp_all only: frame)
  note snd_call = updateContourSelection_selected [OF frame(1) selected(2,3) second, of cv cfg img]
  show ?thesis
    unfolding snd_call frame(3)
    by (simp add: first split: sum.splits)
qed

theorem updateContourSelection_idempotent_witness:
  "contourMap loaded_state
     = Some \<lparr>mat_rows = 1, mat_cols = 2, mat_data = [0, 0, 255, 1, 0, 255]\<rparr>
   \<and> ucharPtr \<lparr>mat_rows = 1, mat_cols = 2, mat_data = [0, 0, 255, 1, 0, 255]\<rparr> 0 1
       = 1 # [0, 255]
   \<and> (1 :: 8 word) \<noteq> 0
   \<and> lastCnt (fst (updateContourSelection ring_engine default_config
          \<lparr>img_width = 200, img_height = 200\<rparr> 1 0 loaded_state)) = Some (square 60 160)
   \<and> lastCnt (fst (updateContourSelection ring_engine default_config
          \<lparr>img_width = 200, img_height = 200\<rparr> 1 0
          (fst (updateContourSelection ring_engine default_config
                  \<lparr>img_width = 200, img_height = 200\<rparr> 1 0 loaded_state))))
       = lastCnt (fst (updateContourSelection ring_engine default_config
          \<lparr>img_width = 200, img_height = 200\<rparr> 1 0 loaded_state))
   \<and> scene (fst (updateContourSelection ring_engine default_config
          \<lparr>img_width = 200, img_height = 200\<rparr> 1 0
          (fst (updateContourSelection ring_engine default_config
                  \<lparr>img_width = 200, img_height = 200\<rparr> 1 0 loaded_state))))
       = scene (fst (updateContourSelection ring_engine default_config
          \<lparr>img_width = 200, img_height = 200\<rparr> 1 0 loaded_state))"
proof -
  have m: "contourMap loaded_state
     = Some \<lparr>mat_rows = 1, mat_cols = 2, mat_data = [0, 0, 255, 1, 0, 255]\<rparr>"
    by (simp add: loaded_state_def)
  have p: "ucharPtr \<lparr>mat_rows = 1, mat_cols = 2, mat_data = [0, 0, 255, 1, 0, 255]\<rparr> 0 1
             = 1 # [0, 255]"
    by (simp add: ucharPtr_def)
  have n: "(1 :: 8 word) \<noteq> 0" by simp
  have i: "MatVector_get (contourNumMap loaded_state) (unat (1 :: 8 word) - 1) = Some 0"
    and c: "MatVector_get (contours loaded_state) 0 = Some (square 60 160)"
    by (simp_all add: loaded_state_def MatVector_get_def)
  have l: "lastCnt (fst (updateContourSelection ring_engine default_config
          \<lparr>img_width = 200, img_height = 200\<rparr> 1 0 loaded_state)) = Some (square 60 160)"
    unfolding updateContourSelection_selected [OF m p n i c]
    by (simp split: sum.splits)
  from updateContourSelection_idempotent
         [OF m p n, of ring_engine default_config "\<lparr>img_width = 200, img_height = 200\<rparr>"]
       m p n l
  show ?thesis by blast
qed


section \<open>The name of the exported file\<close>

text \<open>A range of code units is the image of the same range of numbers.\<close>

lemma unat_range_image:
  fixes c :: "16 word"
  assumes "hi \<le> 65536"
  shows "(lo \<le> unat c \<and> unat c < hi) \<longleftrightarrow> c \<in> of_nat ` set [lo..<hi]"
proof
  assume "lo \<le> unat c \<and> unat c < hi"
  then have "unat c \<in> set [lo..<hi]" by simp
  then have "of_nat (unat c) \<in> (of_nat ` set [lo..<hi] :: 16 word set)" by (rule imageI)
  then show "c \<in> of_nat ` set [lo..<hi]" by simp
next
  assume "c \<in> of_nat ` set [lo..<hi]"
  then obtain n where n: "lo \<le> n" "n < hi" and c: "c = of_nat n" by auto
  from n assms have "n < 65536" by simp
  then have "unat (of_nat n :: 16 word) = n" by (simp add: unat_of_nat)
  with n c show "lo \<le> unat c \<and> unat c < hi" by simp
qed

lemma lower_codes: "utf16 ''abcdefghijklmnopqrstuvwxyz'' = map of_nat [97..<123]"
  by (simp add: utf16_def upt_rec)

lemma upper_codes: "utf16 ''ABCDEFGHIJKLMNOPQRSTUVWXYZ'' = map of_nat [65..<91]"
  by (simp add: utf16_def upt_rec)

lemma digit_codes: "utf16 ''0123456789'' = map of_nat [48..<58]"
  by (simp add: utf16_def upt_rec)

lemma lower_iff:
  fixes c :: "16 word"
  shows "(0x61 \<le> c \<and> c \<le> 0x7A) \<longleftrightarrow> c \<in> set (utf16 ''abcdefghijklmnopqrstuvwxyz'')"
proof -
  have "(0x61 \<le> c \<and> c \<le> 0x7A) \<longleftrightarrow> (97 \<le> unat c \<and> unat c < 123)"
    by (auto simp: word_le_nat_alt)
  also have "\<dots> \<longleftrightarrow> c \<in> of_nat ` set [97..<123]"
    by (rule unat_range_image) simp
  finally show ?thesis by (simp only: lower_codes set_map)
qed

lemma upper_iff:
  fixes c :: "16 word"
  shows "(0x41 \<le> c \<and> c \<le> 0x5A) \<longleftrightarrow> c \<in> set (utf16 ''ABCDEFGHIJKLMNOPQRSTUVWXYZ'')"
proof -
  have "(0x41 \<le> c \<and> c \<le> 0x5A) \<longleftrightarrow> (65 \<le> unat c \<and> unat c < 91)"
    by (auto simp: word_le_nat_alt)
  also have "\<dots> \<longleftrightarrow> c \<in> of_nat ` set [65..<91]"
    by (rule unat_range_image) simp
  finally show ?thesis by (simp only: upper_codes set_map)
qed

lemma digit_iff:
  fixes c :: "16 word"
  shows "(0x30 \<le> c \<and> c \<le> 0x39) \<longleftrightarrow> c \<in> set (utf16 ''0123456789'')"
proof -
  have "(0x30 \<le> c \<and> c \<le> 0x39) \<longleftrightarrow> (48 \<le> unat c \<and> unat c < 58)"
    by (auto simp: word_le_nat_alt)
  also have "\<dots> \<longleftrightarrow> c \<in> of_nat ` set [48..<58]"
    by (rule unat_range_image) simp
  finally show ?thesis by (simp only: digit_codes set_map)
qed

lemma in_class_iff:
  "in_class c \<longleftrightarrow> ascii_letter c \<or> ascii_digit c \<or> c = hyphen \<or> c = underscore"
proof -
  have h: "hyphen = 0x2D" and u: "underscore = 0x5F"
    by (simp_all add: hyphen_def underscore_def)
  show ?thesis
    unfolding in_class_def ascii_letter_def ascii_digit_def lower_iff upper_iff digit_iff h u
    by blast
qed

text \<open>
  C7. For every file name, \<^verbatim>\<open>saveTextAsFile\<close> replaces each code unit that is not an
  ASCII letter, a digit, a hyphen or an underscore by an underscore, keeps the others, and
  appends the extension \<^verbatim>\<open>.stl\<close>; the base \<^verbatim>\<open>my cookie!\<close> becomes \<^verbatim>\<open>my_cookie_\<close>
  and the base \<^verbatim>\<open>A/B..c\<close> becomes \<^verbatim>\<open>A_B__c\<close>.
\<close>

theorem fileNameToSaveAs_sanitized:
  "fileNameToSaveAs saveFilename =
     map (\<lambda>c. if ascii_letter c \<or> ascii_digit c \<or> c = hyphen \<or> c = underscore then c
              else underscore) saveFilename @ utf16 ''.stl''
   \<and> sanitizedFilename (utf16 ''my cookie!'') = utf16 ''my_cookie_''
   \<and> fileNameToSaveAs (utf16 ''my cookie!'') = utf16 ''my_cookie_.stl''
   \<and> sanitizedFilename (utf16 ''A/B..c'') = utf16 ''A_B__c''
   \<and> fileNameToSaveAs (utf16 ''A/B..c'') = utf16 ''A_B__c.stl''"
proof -
  have "fileNameToSaveAs saveFilename =
     map (\<lambda>c. if ascii_letter c \<or> ascii_digit c \<or> c = hyphen \<or> c = underscore then c
              else underscore) saveFilename @ utf16 ''.stl''"
    by (simp add: fileNameToSaveAs_def sanitizedFilename_def in_class_iff underscore_def)
  moreover have "sanitizedFilename (utf16 ''my cookie!'') = utf16 ''my_cookie_''"
    and "sanitizedFilename (utf16 ''A/B..c'') = utf16 ''A_B__c''"
    by (simp_all add: sanitizedFilename_def utf16_def in_class_def)
  moreover have "fileNameToSaveAs (utf16 ''my cookie!'') = utf16 ''my_cookie_.stl''"
    and "fileNameToSaveAs (utf16 ''A/B..c'') = utf16 ''A_B__c.stl''"
    by (simp_all add: fileNameToSaveAs_def sanitizedFilename_def utf16_def in_class_def)
  ultimately show ?thesis by blast
qed

end
